theory Spec2Isabelle
  imports Complex_Main
begin

section \<open>ILSim: sensor amplifier and communication unit\<close>

text \<open>
  A shallow embedding of \<^verbatim>\<open>ilsim/errors.py\<close>, \<^verbatim>\<open>ilsim/sensor.py\<close> and
  \<^verbatim>\<open>ilsim/communication.py\<close>.

  Conventions of the embedding.
  \<^item> Python \<^verbatim>\<open>float\<close> values (millimeters, time stamps) are idealised as exact
    real numbers; the rounding of binary floating point, infinities and NaN are
    outside the model.
  \<^item> \<^verbatim>\<open>float | None\<close> is \<open>real option\<close>.
  \<^item> A method that mutates \<^verbatim>\<open>self\<close> takes the state and returns the new one.
  \<^item> An exception is a value: \<open>Inl\<close> of a sum, or the optional exception next
    to the state a raising method leaves behind.
  \<^item> \<^verbatim>\<open>time.time()\<close> is the parameter \<open>now\<close>.
  \<^item> Text is \<open>string\<close>; the model works on the decoded request and the reply
    before encoding, with characters whose code point is below 256, where the
    class \<^verbatim>\<open>\d\<close> of the pattern holds exactly the digits 0 to 9.
\<close>

subsection \<open>errors.py\<close>

text \<open>The subclasses of \<^verbatim>\<open>CommunicationException\<close>, with their \<^verbatim>\<open>error_code\<close>.\<close>

datatype CommunicationException =
    WriteDataOutsideValidRangeError
  | NonExecutableStateError
  | QueryWriteProtectedError
  | QueryReadProtectedError
  | QueryOutsideValidRangeError
  | IDOutsideValidRangeError
  | InaccessibleIDOrQueryError
  | GeneralSystemError
  | CommandFormatError

fun error_code :: "CommunicationException \<Rightarrow> int" where
  "error_code WriteDataOutsideValidRangeError = 9"
| "error_code NonExecutableStateError = 12"
| "error_code QueryWriteProtectedError = 14"
| "error_code QueryReadProtectedError = 16"
| "error_code QueryOutsideValidRangeError = 20"
| "error_code IDOutsideValidRangeError = 22"
| "error_code InaccessibleIDOrQueryError = 31"
| "error_code GeneralSystemError = 254"
| "error_code CommandFormatError = 255"

text \<open>
  What a call can raise: one of the communication exceptions (caught by
  \<^verbatim>\<open>handle_query\<close>), \<^verbatim>\<open>NotImplementedError\<close> (caught by the \<^verbatim>\<open>response_*\<close>
  methods), or any other exception (re-raised to the caller).
\<close>

datatype exn = Comm CommunicationException | NotImplementedError | OtherException

subsection \<open>sensor.py: enumerations and the bank record\<close>

datatype OperationResult = OPERATING | NORMAL_TERMINATION | ABNORMAL_TERMINATION

datatype ExternalInput1Setting =
  ZERO_SHIFT_1 | BANK_A_1 | BANK_B_1 | LASER_EMISSION_STOP_1 | UNUSED_1

datatype ExternalInput2Setting =
  RESET_2 | BANK_A_2 | BANK_B_2 | LASER_EMISSION_STOP_2 | UNUSED_2

datatype ExternalInput3Setting =
  TIMING_3 | BANK_A_3 | BANK_B_3 | LASER_EMISSION_STOP_3 | UNUSED_3

datatype ExternalInput4Setting =
  UNUSED_4 | BANK_A_4 | BANK_B_4 | LASER_EMISSION_STOP_4

text \<open>\<^verbatim>\<open>BANK_INDEX: TypeAlias = Literal[0, 1, 2, 3]\<close>\<close>

datatype BANK_INDEX = Bank0 | Bank1 | Bank2 | Bank3

fun bank_number :: "BANK_INDEX \<Rightarrow> int" where
  "bank_number Bank0 = 0"
| "bank_number Bank1 = 1"
| "bank_number Bank2 = 2"
| "bank_number Bank3 = 3"

record Bank =
  threshold_high :: real
  threshold_low :: real
  shift_target :: real
  analog_upper_limit :: real
  analog_lower_limit :: real

text \<open>\<^verbatim>\<open>banks: tuple[Bank, Bank, Bank, Bank]\<close>, read and updated by index.\<close>

type_synonym Banks = "Bank \<times> Bank \<times> Bank \<times> Bank"

fun get_bank :: "Banks \<Rightarrow> BANK_INDEX \<Rightarrow> Bank" where
  "get_bank (b0, b1, b2, b3) Bank0 = b0"
| "get_bank (b0, b1, b2, b3) Bank1 = b1"
| "get_bank (b0, b1, b2, b3) Bank2 = b2"
| "get_bank (b0, b1, b2, b3) Bank3 = b3"

fun map_bank :: "(Bank \<Rightarrow> Bank) \<Rightarrow> BANK_INDEX \<Rightarrow> Banks \<Rightarrow> Banks" where
  "map_bank f Bank0 (b0, b1, b2, b3) = (f b0, b1, b2, b3)"
| "map_bank f Bank1 (b0, b1, b2, b3) = (b0, f b1, b2, b3)"
| "map_bank f Bank2 (b0, b1, b2, b3) = (b0, b1, f b2, b3)"
| "map_bank f Bank3 (b0, b1, b2, b3) = (b0, b1, b2, f b3)"

subsection \<open>sensor.py: the state of a SensorUnit\<close>

text \<open>
  The attributes of \<^verbatim>\<open>SensorUnit\<close> that the functions below read or write.
  \<open>internal_error\<close> is the \<^verbatim>\<open>ILError\<close> flag word as a number.
\<close>

record SensorUnit =
  decimal_position :: nat
  lower_bound :: real
  upper_bound :: real
  internal_error :: nat
  is_main_unit :: bool
  raw_value :: "real option"
  p_v_value :: "real option"
  banks :: Banks
  active_bank_setting :: BANK_INDEX
  switch_banks_via_external_input :: bool
  external_input_use_user_settings :: bool
  external_input_1 :: bool
  external_input_1_setting :: ExternalInput1Setting
  external_input_2 :: bool
  external_input_2_setting :: ExternalInput2Setting
  external_input_3 :: bool
  external_input_3_setting :: ExternalInput3Setting
  external_input_4 :: bool
  external_input_4_setting :: ExternalInput4Setting
  stored_laser_emission_stop :: bool
  output_mode_normally_closed :: bool
  tolerance_setting_range :: real
  zero_shift_saved_in_memory :: bool
  zero_shifting_result :: OperationResult
  tuning_result :: OperationResult
  eeprom_write_result :: OperationResult
  next_eeprom_write :: "real option"

subsection \<open>sensor.py: the fixed-point codec\<close>

text \<open>Python's \<^verbatim>\<open>int(x)\<close> on a float: truncation toward zero.\<close>

definition py_int :: "real \<Rightarrow> int" where
  "py_int x = (if x < 0 then \<lceil>x\<rceil> else \<lfloor>x\<rfloor>)"

definition mm_to_int :: "'a SensorUnit_scheme \<Rightarrow> real option \<Rightarrow> int" where
  "mm_to_int self v =
     (case v of
        None \<Rightarrow> - 99998
      | Some x \<Rightarrow>
          if x > upper_bound self then 99999
          else if x < lower_bound self then - 99999
          else py_int (x * 10 ^ decimal_position self))"




subsection \<open>sensor.py: the EEPROM write timer\<close>

text \<open>
  \<^verbatim>\<open>start_eeprom_write(write_duration=2.0)\<close>, with \<open>now\<close> for \<^verbatim>\<open>time.time()\<close>.
\<close>

definition start_eeprom_write :: "real \<Rightarrow> real \<Rightarrow> SensorUnit \<Rightarrow> SensorUnit" where
  "start_eeprom_write now write_duration self =
     (let next_write = now + write_duration in
      self\<lparr>eeprom_write_result := OPERATING,
           next_eeprom_write :=
             (case next_eeprom_write self of
                None \<Rightarrow> Some next_write
              | Some t \<Rightarrow> if t < next_write then Some next_write else Some t)\<rparr>)"

text \<open>The default argument of \<^verbatim>\<open>start_eeprom_write\<close>.\<close>

definition default_write_duration :: real where
  "default_write_duration = 2.0"

subsection \<open>sensor.py: the active bank\<close>

text \<open>
  The local variables \<^verbatim>\<open>bank_a\<close>, \<^verbatim>\<open>bank_b\<close> and \<^verbatim>\<open>bank_index\<close> that the
  property \<^verbatim>\<open>active_bank_index\<close> computes when banks are switched by the
  external inputs.
\<close>

definition bank_a :: "SensorUnit \<Rightarrow> bool" where
  "bank_a self =
     (external_input_use_user_settings self \<and>
      ((external_input_1_setting self = BANK_A_1 \<and> external_input_1 self)
       \<or> (external_input_2_setting self = BANK_A_2 \<and> external_input_2 self)
       \<or> (external_input_3_setting self = BANK_A_3 \<and> external_input_3 self)
       \<or> (external_input_4_setting self = BANK_A_4 \<and> external_input_4 self)))"

definition bank_b :: "SensorUnit \<Rightarrow> bool" where
  "bank_b self =
     (external_input_use_user_settings self \<and>
      ((external_input_1_setting self = BANK_B_1 \<and> external_input_1 self)
       \<or> (external_input_2_setting self = BANK_B_2 \<and> external_input_2 self)
       \<or> (external_input_3_setting self = BANK_B_3 \<and> external_input_3 self)
       \<or> (external_input_4_setting self = BANK_B_4 \<and> external_input_4 self)))"

definition bank_index :: "SensorUnit \<Rightarrow> int" where
  "bank_index self = (2 * of_bool (bank_b self)) + (1 * of_bool (bank_a self))"

text \<open>
  The property itself: \<^verbatim>\<open>bank_index\<close> is computed and checked by the
  \<^verbatim>\<open>assert\<close>, and the method returns \<^verbatim>\<open>self.active_bank_setting\<close> on both paths.
\<close>

definition active_bank_index :: "SensorUnit \<Rightarrow> BANK_INDEX" where
  "active_bank_index self =
     (if switch_banks_via_external_input self
      then (let i = bank_index self in active_bank_setting self)
      else active_bank_setting self)"

definition active_bank :: "SensorUnit \<Rightarrow> Bank" where
  "active_bank self = get_bank (banks self) (active_bank_index self)"

definition sensor_threshold_high :: "SensorUnit \<Rightarrow> real" where
  "sensor_threshold_high self = threshold_high (active_bank self)"

definition sensor_threshold_low :: "SensorUnit \<Rightarrow> real" where
  "sensor_threshold_low self = threshold_low (active_bank self)"

definition sensor_shift_target :: "SensorUnit \<Rightarrow> real" where
  "sensor_shift_target self = shift_target (active_bank self)"

text \<open>\<^verbatim>\<open>read_043_bank_status\<close>\<close>

definition read_043_bank_status :: "SensorUnit \<Rightarrow> int" where
  "read_043_bank_status self = bank_number (active_bank_index self)"

subsection \<open>sensor.py: setters of the banked values\<close>

text \<open>
  \<^verbatim>\<open>index: BANK_INDEX | None = None\<close> selects the bank; \<open>None\<close> is the active one.
\<close>

definition resolve_index :: "SensorUnit \<Rightarrow> BANK_INDEX option \<Rightarrow> BANK_INDEX" where
  "resolve_index self index = (case index of None \<Rightarrow> active_bank_index self | Some i \<Rightarrow> i)"

definition change_low_threshold ::
  "real \<Rightarrow> real \<Rightarrow> BANK_INDEX option \<Rightarrow> SensorUnit \<Rightarrow> SensorUnit" where
  "change_low_threshold now v index self =
     start_eeprom_write now default_write_duration
       (self\<lparr>banks := map_bank (\<lambda>b. b\<lparr>threshold_low := v\<rparr>) (resolve_index self index) (banks self)\<rparr>)"

definition change_high_threshold ::
  "real \<Rightarrow> real \<Rightarrow> BANK_INDEX option \<Rightarrow> SensorUnit \<Rightarrow> SensorUnit" where
  "change_high_threshold now v index self =
     start_eeprom_write now default_write_duration
       (self\<lparr>banks := map_bank (\<lambda>b. b\<lparr>threshold_high := v\<rparr>) (resolve_index self index) (banks self)\<rparr>)"

definition change_shift_target ::
  "real \<Rightarrow> real \<Rightarrow> BANK_INDEX option \<Rightarrow> SensorUnit \<Rightarrow> SensorUnit" where
  "change_shift_target now v index self =
     (let self1 = self\<lparr>banks := map_bank (\<lambda>b. b\<lparr>shift_target := v\<rparr>) (resolve_index self index) (banks self)\<rparr>
      in if zero_shift_saved_in_memory self1 then start_eeprom_write now 0 self1 else self1)"






subsection \<open>sensor.py: write-only requests\<close>

text \<open>
  A write handler returns the exception it raises, if any, and the state it
  leaves behind: a handler that raises after an assignment has made it.
\<close>

definition write_001_zero_shift_execution_request ::
  "real \<Rightarrow> int \<Rightarrow> SensorUnit \<Rightarrow> CommunicationException option \<times> SensorUnit" where
  "write_001_zero_shift_execution_request now setting_data self =
     (if setting_data \<noteq> 1 then (Some WriteDataOutsideValidRangeError, self)
      else
        let self1 = self\<lparr>zero_shifting_result := OPERATING\<rparr> in
        case raw_value self1 of
          None \<Rightarrow> (None, self1\<lparr>zero_shifting_result := ABNORMAL_TERMINATION\<rparr>)
        | Some v \<Rightarrow>
            (None, (change_shift_target now v None self1)\<lparr>zero_shifting_result := NORMAL_TERMINATION\<rparr>))"

definition write_002_zero_shift_reset_request ::
  "real \<Rightarrow> int \<Rightarrow> SensorUnit \<Rightarrow> CommunicationException option \<times> SensorUnit" where
  "write_002_zero_shift_reset_request now setting_data self =
     (if setting_data \<noteq> 1 then (Some WriteDataOutsideValidRangeError, self)
      else
        let self1 = self\<lparr>zero_shifting_result := OPERATING\<rparr> in
        (None, (change_shift_target now 0 None self1)\<lparr>zero_shifting_result := NORMAL_TERMINATION\<rparr>))"

text \<open>
  \<^verbatim>\<open>write_014_tolerance_tuning_request\<close>: the neighbouring request, which
  raises \<^verbatim>\<open>NonExecutableStateError\<close> when it terminates abnormally.
\<close>

definition write_014_tolerance_tuning_request ::
  "real \<Rightarrow> int \<Rightarrow> SensorUnit \<Rightarrow> CommunicationException option \<times> SensorUnit" where
  "write_014_tolerance_tuning_request now setting_data self =
     (if setting_data \<noteq> 1 then (Some WriteDataOutsideValidRangeError, self)
      else
        let self1 = self\<lparr>tuning_result := OPERATING\<rparr> in
        case p_v_value self1 of
          None \<Rightarrow> (Some NonExecutableStateError, self1\<lparr>tuning_result := ABNORMAL_TERMINATION\<rparr>)
        | Some pv \<Rightarrow>
            let new_upper_limit = pv + tolerance_setting_range self1;
                new_lower_limit = pv - tolerance_setting_range self1;
                self2 = change_high_threshold now new_upper_limit None self1;
                self3 = change_low_threshold now new_lower_limit None self2
            in (None, self3\<lparr>tuning_result := NORMAL_TERMINATION\<rparr>))"


subsection \<open>sensor.py: status properties\<close>

text \<open>\<^verbatim>\<open>ILError.Sensor_Head\<close> is bit 2, \<^verbatim>\<open>ILError.EEPROM\<close> bit 1, \<^verbatim>\<open>ILError.Overcurrent\<close> bit 0.\<close>

definition ILError_NO_ERROR :: nat where "ILError_NO_ERROR = 0"
definition ILError_Overcurrent :: nat where "ILError_Overcurrent = 1"
definition ILError_EEPROM :: nat where "ILError_EEPROM = 2"
definition ILError_Sensor_Head :: nat where "ILError_Sensor_Head = 4"

definition has_error :: "SensorUnit \<Rightarrow> bool" where
  "has_error self = (internal_error self \<noteq> ILError_NO_ERROR)"

definition laser_active :: "SensorUnit \<Rightarrow> bool" where
  "laser_active self =
     (if (external_input_use_user_settings self \<and>
          ((external_input_1_setting self = LASER_EMISSION_STOP_1 \<and> external_input_1 self)
           \<or> (external_input_2_setting self = LASER_EMISSION_STOP_2 \<and> external_input_2 self)
           \<or> (external_input_3_setting self = LASER_EMISSION_STOP_3 \<and> external_input_3 self)
           \<or> (external_input_4_setting self = LASER_EMISSION_STOP_4 \<and> external_input_4 self)))
         \<or> stored_laser_emission_stop self
         \<or> internal_error self = ILError_Sensor_Head
      then False else True)"

text \<open>\<^verbatim>\<open>judgment_value\<close> is the property that reads \<^verbatim>\<open>_p_v_value\<close>.\<close>

definition judgment_value :: "SensorUnit \<Rightarrow> real option" where
  "judgment_value self = p_v_value self"

definition is_out_of_range :: "SensorUnit \<Rightarrow> bool" where
  "is_out_of_range self =
     (\<not> laser_active self
      \<or> (case judgment_value self of
            None \<Rightarrow> True
          | Some pv \<Rightarrow> pv > upper_bound self \<or> pv < lower_bound self))"

definition value_invalid :: "SensorUnit \<Rightarrow> bool" where
  "value_invalid self = (\<not> laser_active self \<or> judgment_value self = None)"

definition value_under_range :: "SensorUnit \<Rightarrow> bool" where
  "value_under_range self =
     (case judgment_value self of None \<Rightarrow> False | Some pv \<Rightarrow> pv < lower_bound self)"

definition value_over_range :: "SensorUnit \<Rightarrow> bool" where
  "value_over_range self =
     (case judgment_value self of None \<Rightarrow> False | Some pv \<Rightarrow> pv > upper_bound self)"

definition CONSTANT_ERROR :: int where "CONSTANT_ERROR = 100000000"
definition CONSTANT_INVALID :: int where "CONSTANT_INVALID = - 99999998"
definition CONSTANT_OVERRANGE :: int where "CONSTANT_OVERRANGE = 99999999"
definition CONSTANT_UNDERRANGE :: int where "CONSTANT_UNDERRANGE = 99999999"

definition judgment_value_for_communication_unit :: "SensorUnit \<Rightarrow> int" where
  "judgment_value_for_communication_unit self =
     (if internal_error self \<noteq> ILError_NO_ERROR then CONSTANT_ERROR
      else if value_invalid self then CONSTANT_INVALID
      else if value_over_range self then CONSTANT_OVERRANGE
      else if value_under_range self then CONSTANT_UNDERRANGE
      else mm_to_int self (judgment_value self))"

text \<open>
  The theoretical states of the outputs. \<^verbatim>\<open>ILError.Overcurrent & internal_error\<close>
  is true when bit 0 of the flag word is set.
\<close>

definition alarm_state :: "SensorUnit \<Rightarrow> bool" where
  "alarm_state self =
     (if internal_error self \<noteq> ILError_NO_ERROR \<or> raw_value self = None then True else False)"

definition high_state :: "SensorUnit \<Rightarrow> bool" where
  "high_state self =
     (if odd (internal_error self) then False
      else if internal_error self \<noteq> ILError_NO_ERROR \<and> internal_error self \<noteq> ILError_EEPROM
        then True
      else
        case (raw_value self, judgment_value self) of
          (Some raw, Some pv) \<Rightarrow>
            if \<not> laser_active self then False
            else if raw > upper_bound self \<or> pv > sensor_threshold_high self then True
            else False
        | _ \<Rightarrow> False)"

definition low_state :: "SensorUnit \<Rightarrow> bool" where
  "low_state self =
     (if odd (internal_error self) then False
      else if internal_error self \<noteq> ILError_NO_ERROR \<and> internal_error self \<noteq> ILError_EEPROM
        then True
      else
        case (raw_value self, judgment_value self) of
          (Some raw, Some pv) \<Rightarrow>
            if \<not> laser_active self then False
            else if raw < lower_bound self \<or> pv < sensor_threshold_low self then True
            else False
        | _ \<Rightarrow> False)"

definition go_state :: "SensorUnit \<Rightarrow> bool" where
  "go_state self =
     (if odd (internal_error self) then False
      else if internal_error self \<noteq> ILError_NO_ERROR \<and> internal_error self \<noteq> ILError_EEPROM
        then False
      else
        case (raw_value self, judgment_value self) of
          (Some raw, Some pv) \<Rightarrow>
            if \<not> laser_active self then False
            else if raw > upper_bound self \<or> pv > sensor_threshold_high self
                    \<or> raw < lower_bound self \<or> pv < sensor_threshold_low self then False
            else True
        | _ \<Rightarrow> False)"

definition OUTPUT_FALSE :: "SensorUnit \<Rightarrow> bool" where
  "OUTPUT_FALSE self = output_mode_normally_closed self"

definition OUTPUT_TRUE :: "SensorUnit \<Rightarrow> bool" where
  "OUTPUT_TRUE self = (\<not> output_mode_normally_closed self)"

definition alarm_output :: "SensorUnit \<Rightarrow> bool" where
  "alarm_output self = (\<not> alarm_state self)"

definition high_output :: "SensorUnit \<Rightarrow> bool" where
  "high_output self = (if high_state self then OUTPUT_TRUE self else OUTPUT_FALSE self)"

definition low_output :: "SensorUnit \<Rightarrow> bool" where
  "low_output self = (if low_state self then OUTPUT_TRUE self else OUTPUT_FALSE self)"

definition go_output :: "SensorUnit \<Rightarrow> bool" where
  "go_output self = (if go_state self then OUTPUT_TRUE self else OUTPUT_FALSE self)"

text \<open>
  \<^verbatim>\<open>error_code\<close>: \<^verbatim>\<open>int(-bitmask & bitmask).bit_length()\<close>, the position of the
  lowest set bit counted from one, and zero for an empty flag word.
\<close>

fun lowest_bit_length :: "nat \<Rightarrow> nat" where
  "lowest_bit_length n =
     (if n = 0 then 0 else if odd n then 1 else Suc (lowest_bit_length (n div 2)))"

definition sensor_error_code :: "SensorUnit \<Rightarrow> int" where
  "sensor_error_code self = int (lowest_bit_length (internal_error self))"

text \<open>\<^verbatim>\<open>OutputState\<close> and the property \<^verbatim>\<open>output_state\<close>, for the MS command.\<close>

datatype OutputState = All_OFF | HIGH | LOW | Error | GO | HH | LL

fun OutputState_value :: "OutputState \<Rightarrow> int" where
  "OutputState_value All_OFF = 0"
| "OutputState_value HIGH = 1"
| "OutputState_value LOW = 2"
| "OutputState_value Error = 3"
| "OutputState_value GO = 4"
| "OutputState_value HH = 8"
| "OutputState_value LL = 16"

definition output_state :: "SensorUnit \<Rightarrow> OutputState" where
  "output_state self =
     (if internal_error self \<noteq> ILError_NO_ERROR then Error
      else if high_state self then HIGH
      else if low_state self then LOW
      else if go_state self then GO
      else All_OFF)"

subsection \<open>Python's number formatting\<close>

definition digit_char :: "nat \<Rightarrow> char" where
  "digit_char d = ''0123456789'' ! d"

text \<open>\<^verbatim>\<open>str(n)\<close> for a natural number and for an integer.\<close>

fun str_nat :: "nat \<Rightarrow> string" where
  "str_nat n = (if n < 10 then [digit_char n] else str_nat (n div 10) @ [digit_char (n mod 10)])"

definition str_int :: "int \<Rightarrow> string" where
  "str_int i = (if i < 0 then CHR ''-'' # str_nat (nat (- i)) else str_nat (nat i))"

text \<open>The format specification \<^verbatim>\<open>0>w\<close>: the text, right-aligned in \<open>w\<close> columns of zeros.\<close>

definition rjust0 :: "nat \<Rightarrow> string \<Rightarrow> string" where
  "rjust0 w s = replicate (w - length s) (CHR ''0'') @ s"

definition format_0gt :: "nat \<Rightarrow> int \<Rightarrow> string" where
  "format_0gt w i = rjust0 w (str_int i)"

text \<open>
  The format specification \<^verbatim>\<open>+010d\<close>: the sign, then the digits padded with
  zeros to a total width of ten.
\<close>

definition format_plus010d :: "int \<Rightarrow> string" where
  "format_plus010d i =
     (if i < 0 then CHR ''-'' else CHR ''+'') # rjust0 9 (str_nat (nat \<bar>i\<bar>))"

definition stringified_state :: "SensorUnit \<Rightarrow> string" where
  "stringified_state self = format_0gt 2 (OutputState_value (output_state self))"

definition stringified_value :: "SensorUnit \<Rightarrow> string" where
  "stringified_value self = format_plus010d (judgment_value_for_communication_unit self)"

subsection \<open>sensor.py: the register tables and their dispatch\<close>

text \<open>
  \<^verbatim>\<open>init_mappings\<close> fills two dictionaries from data number to bound method.
  A method is named here by its identifier; \<^verbatim>\<open>partial(method, i)\<close> carries the
  bank it is applied to.
\<close>

datatype handler = Method string | Partial string BANK_INDEX

definition read_mapping_literal :: "(int \<times> handler) list" where
  "read_mapping_literal = [
      (33, Method ''read_033_sensor_amplifier_error''),
      (36, Method ''read_036_judgment_alarm_output''),
      (37, Method ''read_037_judgment_value''),
      (38, Method ''read_038_internal_measurement_value''),
      (39, Method ''read_039_peak_hold_value_during_hold_period''),
      (40, Method ''read_040_bottom_hold_value_during_hold_period''),
      (41, Method ''read_041_calculation_value''),
      (42, Method ''read_042_analog_output_value''),
      (43, Method ''read_043_bank_status''),
      (44, Method ''read_044_timing_status''),
      (50, Method ''read_050_laser_emission_stop_status''),
      (51, Method ''read_051_abnormal_setting''),
      (52, Method ''read_052_external_input_status''),
      (53, Method ''read_053_eeprom_write_result''),
      (54, Method ''read_054_zero_shift_zero_shift_reset_result''),
      (55, Method ''read_055_reset_request_result''),
      (56, Method ''read_056_current_system_parameters''),
      (60, Method ''read_060_tuning_result''),
      (61, Method ''read_061_calibraiton_result''),
      (97, Method ''read_097_key_lock_function''),
      (98, Method ''read_098_bank_function''),
      (99, Method ''read_099_timing_input''),
      (100, Method ''read_100_laser_emission_on_stop_input''),
      (104, Method ''read_104_sub_display_screen''),
      (105, Method ''read_105_system_parameter_settings''),
      (106, Method ''read_106_tolerance_tuning_setting_range''),
      (107, Method ''read_107_calibration_function''),
      (108, Method ''read_108_calibration_function_set_1''),
      (109, Method ''read_109_calibration_function_set_2''),
      (110, Method ''read_110_calculated_value_calibration_function''),
      (111, Method ''read_111_calculated_value_two_point_set_1''),
      (112, Method ''read_112_calculated_value_two_point_set_2''),
      (113, Method ''read_113_calculated_value_three_point_set_1''),
      (114, Method ''read_114_calculated_value_three_point_set_3''),
      (129, Method ''read_129_calculation_function''),
      (131, Method ''read_131_measurement_direction''),
      (132, Method ''read_132_sampling_cycle''),
      (133, Method ''read_133_averaging_diff_count_high_pass_filter''),
      (134, Method ''read_134_output_mode''),
      (136, Method ''read_136_hold_function_setting''),
      (137, Method ''read_137_auto_hold_trigger_level''),
      (138, Method ''read_138_timing_input_setting''),
      (139, Method ''read_139_delay_timer''),
      (140, Method ''read_140_timer_duration''),
      (141, Method ''read_141_hyseresis''),
      (142, Method ''read_142_analog_output_scaling''),
      (143, Method ''read_143_analog_output_upper_limit_value''),
      (144, Method ''read_144_analog_output_lower_limit_value''),
      (145, Method ''read_145_external_input''),
      (146, Method ''read_146_external_input_1''),
      (147, Method ''read_147_external_input_2''),
      (148, Method ''read_148_external_input_3''),
      (149, Method ''read_149_external_input_4''),
      (150, Method ''read_150_bank_switching_method''),
      (152, Method ''read_152_zero_shift_value_memory_function''),
      (153, Method ''read_153_mutual_interference_prevention_function''),
      (154, Method ''read_154_display_digit''),
      (155, Method ''read_155_power_saving_function''),
      (156, Method ''read_156_head_display_mode''),
      (157, Method ''read_157_display_color''),
      (158, Method ''read_158_timer_duration_diff_count_filter''),
      (159, Method ''read_159_cutoff_frequency_high_pass_filter''),
      (161, Method ''read_161_alarm_setting''),
      (162, Method ''read_162_alarm_count''),
      (193, Method ''read_193_product_code''),
      (194, Method ''read_194_revision''),
      (195, Method ''read_195_connected_sensor_head''),
      (200, Method ''read_200_product_name''),
      (215, Method ''read_215_series_code''),
      (216, Method ''read_216_series_version''),
      (217, Method ''read_217_device_type'')]"

definition write_mapping_literal :: "(int \<times> handler) list" where
  "write_mapping_literal = [
      (1, Method ''write_001_zero_shift_execution_request''),
      (2, Method ''write_002_zero_shift_reset_request''),
      (3, Method ''write_003_reset_request''),
      (5, Method ''write_005_initial_reset_request''),
      (6, Method ''write_006_system_parameters_set_request''),
      (14, Method ''write_014_tolerance_tuning_request''),
      (15, Method ''write_015_2point_high_1st_point_request''),
      (16, Method ''write_016_2point_high_2nd_point_request''),
      (17, Method ''write_017_2point_low_1st_point_request''),
      (18, Method ''write_018_2point_low_2nd_point_request''),
      (19, Method ''write_019_calibration_set_1_request''),
      (20, Method ''write_020_calibration_set_2_request''),
      (21, Method ''write_021_calc_2point_calibration_set_1_request''),
      (22, Method ''write_022_calc_2point_calibration_set_2_request''),
      (23, Method ''write_023_calc_3point_calibration_set_1_request''),
      (24, Method ''write_024_calc_3point_calibration_set_2_request''),
      (25, Method ''write_025_calc_3point_calibration_set_3_request''),
      (26, Method ''write_026_diff_count_filter_1point_tuning_request''),
      (27, Method ''write_027_diff_count_filter_2point_1st_point_request''),
      (28, Method ''write_028_diff_count_filter_2point_2nd_point_request''),
      (97, Method ''write_097_key_lock_function''),
      (98, Method ''write_098_bank_function''),
      (99, Method ''write_099_timing_input''),
      (100, Method ''write_100_laser_emission_on_stop_input''),
      (104, Method ''write_104_sub_display_screen''),
      (105, Method ''write_105_system_parameter_settings''),
      (106, Method ''write_106_tolerance_tuning_setting_range''),
      (107, Method ''write_107_calibration_function''),
      (108, Method ''write_108_calibration_function_set_1''),
      (109, Method ''write_109_calibration_function_set_2''),
      (110, Method ''write_110_calculated_value_calibration_function''),
      (111, Method ''write_111_calculated_value_two_point_set_1''),
      (112, Method ''write_112_calculated_value_two_point_set_2''),
      (113, Method ''write_113_calculated_value_three_point_set_1''),
      (114, Method ''write_114_calculated_value_three_point_set_3''),
      (129, Method ''write_129_calculation_function''),
      (131, Method ''write_131_measurement_direction''),
      (132, Method ''write_132_sampling_cycle''),
      (133, Method ''write_133_averaging_diff_count_high_pass_filter''),
      (134, Method ''write_134_output_mode''),
      (136, Method ''write_136_hold_function_setting''),
      (137, Method ''write_137_auto_hold_trigger_level''),
      (138, Method ''write_138_timing_input_setting''),
      (139, Method ''write_139_delay_timer''),
      (140, Method ''write_140_timer_duration''),
      (141, Method ''write_141_hyseresis''),
      (142, Method ''write_142_analog_output_scaling''),
      (143, Method ''write_143_analog_output_upper_limit_value''),
      (144, Method ''write_144_analog_output_lower_limit_value''),
      (145, Method ''write_145_external_input''),
      (146, Method ''write_146_external_input_1''),
      (147, Method ''write_147_external_input_2''),
      (148, Method ''write_148_external_input_3''),
      (149, Method ''write_149_external_input_4''),
      (150, Method ''write_150_bank_switching_method''),
      (152, Method ''write_152_zero_shift_value_memory_function''),
      (153, Method ''write_153_mutual_interference_prevention_function''),
      (154, Method ''write_154_display_digit''),
      (155, Method ''write_155_power_saving_function''),
      (156, Method ''write_156_head_display_mode''),
      (157, Method ''write_157_display_color''),
      (158, Method ''write_158_timer_duration_diff_count_filter''),
      (159, Method ''write_159_cutoff_frequency_high_pass_filter''),
      (161, Method ''write_161_alarm_setting''),
      (162, Method ''write_162_alarm_count'')]"

text \<open>The entries that the loop \<^verbatim>\<open>for i in (0, 1, 2, 3)\<close> adds.\<close>

definition bank_read_entries :: "BANK_INDEX \<Rightarrow> (int \<times> handler) list" where
  "bank_read_entries i = [
      (65 + 5 * bank_number i + 0, Partial ''read_06X_high_setting_value_bank_Y'' i),
      (65 + 5 * bank_number i + 1, Partial ''read_06X_low_setting_value_bank_Y'' i),
      (65 + 5 * bank_number i + 2, Partial ''read_06X_shift_target_value_bank_Y'' i),
      (65 + 5 * bank_number i + 3, Partial ''read_06X_analog_output_upper_limit_bank_Y'' i),
      (65 + 5 * bank_number i + 4, Partial ''read_06X_analog_output_lower_limit_bank_Y'' i)]"

definition bank_write_entries :: "BANK_INDEX \<Rightarrow> (int \<times> handler) list" where
  "bank_write_entries i = [
      (65 + 5 * bank_number i + 0, Partial ''write_06X_high_setting_value_bank_Y'' i),
      (65 + 5 * bank_number i + 1, Partial ''write_06X_low_setting_value_bank_Y'' i),
      (65 + 5 * bank_number i + 2, Partial ''write_06X_shift_target_value_bank_Y'' i),
      (65 + 5 * bank_number i + 3, Partial ''write_06X_analog_output_upper_limit_bank_Y'' i),
      (65 + 5 * bank_number i + 4, Partial ''write_06X_analog_output_lower_limit_bank_Y'' i)]"

definition read_mapping :: "int \<Rightarrow> handler option" where
  "read_mapping =
     map_of (read_mapping_literal @ concat (map bank_read_entries [Bank0, Bank1, Bank2, Bank3]))"

definition write_mapping :: "int \<Rightarrow> handler option" where
  "write_mapping =
     map_of (write_mapping_literal @ concat (map bank_write_entries [Bank0, Bank1, Bank2, Bank3]))"

text \<open>
  \<^verbatim>\<open>handle_read\<close> and \<^verbatim>\<open>handle_write\<close>. The argument \<open>call\<close> runs the bound method
  that the table selects: it gives what the method returns or raises.
\<close>

definition handle_read :: "(handler \<Rightarrow> exn + 'a) \<Rightarrow> int \<Rightarrow> exn + 'a" where
  "handle_read call query_data =
     (if query_data > 223 then Inl (Comm QueryOutsideValidRangeError)
      else
        case read_mapping query_data of
          None \<Rightarrow>
            if write_mapping query_data \<noteq> None then Inl (Comm QueryReadProtectedError)
            else Inl (Comm InaccessibleIDOrQueryError)
        | Some handler_function \<Rightarrow> call handler_function)"

definition handle_write ::
  "(handler \<Rightarrow> int \<Rightarrow> 's \<Rightarrow> exn option \<times> 's) \<Rightarrow> int \<Rightarrow> int \<Rightarrow> 's \<Rightarrow> exn option \<times> 's" where
  "handle_write call query_data setting_data st =
     (if query_data > 223 then (Some (Comm QueryOutsideValidRangeError), st)
      else
        case write_mapping query_data of
          None \<Rightarrow>
            if read_mapping query_data \<noteq> None then (Some (Comm QueryWriteProtectedError), st)
            else (Some (Comm InaccessibleIDOrQueryError), st)
        | Some handler_function \<Rightarrow> call handler_function setting_data st)"


subsection \<open>communication.py: the state of the communication unit\<close>

datatype DLEN1Error =
    NO_ERROR | ERROR_051 | ERROR_052 | ERROR_053 | ERROR_054 | ERROR_055 | ERROR_056
  | ERROR_057 | ERROR_070 | ERROR_100 | ERROR_101 | ERROR_102 | ERROR_103 | ERROR_104
  | ERROR_150 | ERROR_151 | ERROR_152

fun DLEN1Error_value :: "DLEN1Error \<Rightarrow> int" where
  "DLEN1Error_value NO_ERROR = 0"
| "DLEN1Error_value ERROR_051 = 51"
| "DLEN1Error_value ERROR_052 = 52"
| "DLEN1Error_value ERROR_053 = 53"
| "DLEN1Error_value ERROR_054 = 54"
| "DLEN1Error_value ERROR_055 = 55"
| "DLEN1Error_value ERROR_056 = 56"
| "DLEN1Error_value ERROR_057 = 57"
| "DLEN1Error_value ERROR_070 = 70"
| "DLEN1Error_value ERROR_100 = 100"
| "DLEN1Error_value ERROR_101 = 101"
| "DLEN1Error_value ERROR_102 = 102"
| "DLEN1Error_value ERROR_103 = 103"
| "DLEN1Error_value ERROR_104 = 104"
| "DLEN1Error_value ERROR_150 = 150"
| "DLEN1Error_value ERROR_151 = 151"
| "DLEN1Error_value ERROR_152 = 152"

text \<open>
  The attributes of \<^verbatim>\<open>CommunicationUnit\<close>; \<open>cu_internal_error\<close> is its
  \<^verbatim>\<open>internal_error\<close>. The two dictionaries and the compiled pattern are the
  constants \<open>cu_read_mapping\<close>, \<open>cu_write_mapping\<close> and \<open>fullmatch\<close> below.
\<close>

record CommunicationUnit =
  connected_sensors :: "SensorUnit list"
  cu_internal_error :: DLEN1Error
  mask_sensor_status :: bool

text \<open>
  \<^verbatim>\<open>xs[i]\<close> on a Python list: a negative index counts from the end, and an index
  out of range raises \<^verbatim>\<open>IndexError\<close> (\<open>None\<close>).
\<close>

definition py_index :: "'a list \<Rightarrow> int \<Rightarrow> 'a option" where
  "py_index xs i =
     (if 0 \<le> i \<and> i < int (length xs) then Some (xs ! nat i)
      else if - int (length xs) \<le> i \<and> i < 0 then Some (xs ! nat (int (length xs) + i))
      else None)"

subsection \<open>communication.py: registers of the communication unit\<close>

text \<open>
  The sums \<^verbatim>\<open>output += 2**i * flag(sensor)\<close> over \<^verbatim>\<open>enumerate(connected_sensors)\<close>.
\<close>

definition sensor_bitmap :: "(SensorUnit \<Rightarrow> bool) \<Rightarrow> SensorUnit list \<Rightarrow> int" where
  "sensor_bitmap flag sensors =
     sum_list (map (\<lambda>(i, sensor). 2 ^ i * of_bool (flag sensor)) (enumerate 0 sensors))"

definition read_000_status :: "CommunicationUnit \<Rightarrow> int" where
  "read_000_status self =
     2 ^ 0 * of_bool (cu_internal_error self \<noteq> NO_ERROR)
     + 2 ^ 15 * of_bool (list_ex has_error (connected_sensors self))"

definition read_001_sensor_error_status :: "CommunicationUnit \<Rightarrow> int" where
  "read_001_sensor_error_status self = sensor_bitmap has_error (connected_sensors self)"

definition read_002_warning_status :: "CommunicationUnit \<Rightarrow> int" where
  "read_002_warning_status self = 0"

definition read_004_current_value_0_property :: "CommunicationUnit \<Rightarrow> int" where
  "read_004_current_value_0_property self = sensor_bitmap is_out_of_range (connected_sensors self)"

text \<open>The first sensor with an error, as the two \<^verbatim>\<open>for\<close> loops with \<^verbatim>\<open>return\<close> find it.\<close>

fun first_error_id :: "nat \<Rightarrow> SensorUnit list \<Rightarrow> int" where
  "first_error_id i [] = 0"
| "first_error_id i (sensor # rest) =
     (if has_error sensor then int i + 1 else first_error_id (Suc i) rest)"

fun first_error_code :: "SensorUnit list \<Rightarrow> int" where
  "first_error_code [] = 0"
| "first_error_code (sensor # rest) =
     (if has_error sensor then sensor_error_code sensor else first_error_code rest)"

definition read_008_error_id_number :: "CommunicationUnit \<Rightarrow> int" where
  "read_008_error_id_number self =
     (if cu_internal_error self \<noteq> NO_ERROR then 0
      else first_error_id 0 (connected_sensors self))"

definition read_009_error_code :: "CommunicationUnit \<Rightarrow> int" where
  "read_009_error_code self =
     (if cu_internal_error self \<noteq> NO_ERROR then DLEN1Error_value (cu_internal_error self)
      else first_error_code (connected_sensors self))"

definition read_010_warning_id_number :: "CommunicationUnit \<Rightarrow> int" where
  "read_010_warning_id_number self = 0"

definition read_011_warning_code :: "CommunicationUnit \<Rightarrow> int" where
  "read_011_warning_code self = 0"

definition read_016_output_1_high :: "CommunicationUnit \<Rightarrow> int" where
  "read_016_output_1_high self = sensor_bitmap high_output (connected_sensors self)"

definition read_017_output_2_low :: "CommunicationUnit \<Rightarrow> int" where
  "read_017_output_2_low self = sensor_bitmap low_output (connected_sensors self)"

definition read_018_output_3_go :: "CommunicationUnit \<Rightarrow> int" where
  "read_018_output_3_go self = sensor_bitmap go_output (connected_sensors self)"

definition read_019_output_4_alarm :: "CommunicationUnit \<Rightarrow> int" where
  "read_019_output_4_alarm self = sensor_bitmap alarm_output (connected_sensors self)"

definition read_020_output_5 :: "CommunicationUnit \<Rightarrow> int" where
  "read_020_output_5 self = 0"

definition read_038_current_value_0_invalid :: "CommunicationUnit \<Rightarrow> int" where
  "read_038_current_value_0_invalid self = sensor_bitmap value_invalid (connected_sensors self)"

definition read_039_current_value_0_under_range :: "CommunicationUnit \<Rightarrow> int" where
  "read_039_current_value_0_under_range self =
     sensor_bitmap value_under_range (connected_sensors self)"

definition read_040_current_value_0_over_range :: "CommunicationUnit \<Rightarrow> int" where
  "read_040_current_value_0_over_range self =
     sensor_bitmap value_over_range (connected_sensors self)"

definition read_044_to_058_current_value_id_Y ::
  "int \<Rightarrow> CommunicationUnit \<Rightarrow> exn + int" where
  "read_044_to_058_current_value_id_Y ident self =
     (case py_index (connected_sensors self) ident of
        Some sensor \<Rightarrow> Inr (judgment_value_for_communication_unit sensor)
      | None \<Rightarrow> Inl (Comm IDOutsideValidRangeError))"

definition read_076_sensor_status_mask_setting :: "CommunicationUnit \<Rightarrow> int" where
  "read_076_sensor_status_mask_setting self = 1 * of_bool (mask_sensor_status self)"

definition write_076_sensor_status_mask_setting ::
  "int \<Rightarrow> CommunicationUnit \<Rightarrow> exn option \<times> CommunicationUnit" where
  "write_076_sensor_status_mask_setting setting_data self =
     (if setting_data \<noteq> 0 \<and> setting_data \<noteq> 1
      then (Some (Comm WriteDataOutsideValidRangeError), self)
      else (None, self\<lparr>mask_sensor_status := (setting_data \<noteq> 0)\<rparr>))"

definition read_077_sensor_connected_number :: "CommunicationUnit \<Rightarrow> int" where
  "read_077_sensor_connected_number self = int (length (connected_sensors self))"

definition read_668_error_code_id_00 :: "CommunicationUnit \<Rightarrow> int" where
  "read_668_error_code_id_00 self = DLEN1Error_value (cu_internal_error self)"

definition read_669_to_683_error_code_id_Y ::
  "int \<Rightarrow> CommunicationUnit \<Rightarrow> exn + int" where
  "read_669_to_683_error_code_id_Y ident self =
     (case py_index (connected_sensors self) ident of
        Some sensor \<Rightarrow> Inr (int (internal_error sensor))
      | None \<Rightarrow> Inl (Comm IDOutsideValidRangeError))"

text \<open>
  \<^verbatim>\<open>init_mappings\<close> of the communication unit: the dictionary literal, then the
  loop \<^verbatim>\<open>for i in range(15)\<close>. A method that cannot raise is lifted by \<open>returns\<close>.
\<close>

definition returns :: "('s \<Rightarrow> int) \<Rightarrow> 's \<Rightarrow> exn + int" where
  "returns f self = Inr (f self)"

definition cu_read_mapping_literal ::
  "(int \<times> (CommunicationUnit \<Rightarrow> exn + int)) list" where
  "cu_read_mapping_literal = [
      (0, returns read_000_status),
      (1, returns read_001_sensor_error_status),
      (2, returns read_002_warning_status),
      (4, returns read_004_current_value_0_property),
      (8, returns read_008_error_id_number),
      (9, returns read_009_error_code),
      (10, returns read_010_warning_id_number),
      (11, returns read_011_warning_code),
      (16, returns read_016_output_1_high),
      (17, returns read_017_output_2_low),
      (18, returns read_018_output_3_go),
      (19, returns read_019_output_4_alarm),
      (20, returns read_020_output_5),
      (38, returns read_038_current_value_0_invalid),
      (39, returns read_039_current_value_0_under_range),
      (40, returns read_040_current_value_0_over_range),
      (76, returns read_076_sensor_status_mask_setting),
      (77, returns read_077_sensor_connected_number),
      (668, returns read_668_error_code_id_00)]"

definition cu_loop_entries :: "int \<Rightarrow> (int \<times> (CommunicationUnit \<Rightarrow> exn + int)) list" where
  "cu_loop_entries i = [
      (44 + i, read_044_to_058_current_value_id_Y i),
      (669 + i, read_669_to_683_error_code_id_Y i)]"

text \<open>\<^verbatim>\<open>range(15)\<close>\<close>

definition range_15 :: "int list" where
  "range_15 = [0, 1, 2, 3, 4, 5, 6, 7, 8, 9, 10, 11, 12, 13, 14]"

definition cu_read_mapping :: "int \<Rightarrow> (CommunicationUnit \<Rightarrow> exn + int) option" where
  "cu_read_mapping = map_of (cu_read_mapping_literal @ concat (map cu_loop_entries range_15))"

definition cu_write_mapping ::
  "int \<Rightarrow> (int \<Rightarrow> CommunicationUnit \<Rightarrow> exn option \<times> CommunicationUnit) option" where
  "cu_write_mapping = map_of [(76, write_076_sensor_status_mask_setting)]"

text \<open>\<^verbatim>\<open>CommunicationUnit.handle_read\<close> and \<^verbatim>\<open>CommunicationUnit.handle_write\<close>.\<close>

definition cu_handle_read :: "CommunicationUnit \<Rightarrow> int \<Rightarrow> exn + int" where
  "cu_handle_read self query_data =
     (if query_data > 1179 then Inl (Comm QueryOutsideValidRangeError)
      else
        case cu_read_mapping query_data of
          None \<Rightarrow>
            if cu_write_mapping query_data \<noteq> None then Inl (Comm QueryReadProtectedError)
            else Inl (Comm InaccessibleIDOrQueryError)
        | Some handler_function \<Rightarrow> handler_function self)"

definition cu_handle_write ::
  "int \<Rightarrow> int \<Rightarrow> CommunicationUnit \<Rightarrow> exn option \<times> CommunicationUnit" where
  "cu_handle_write query_data setting_data self =
     (if query_data > 1179 then (Some (Comm QueryOutsideValidRangeError), self)
      else
        case cu_write_mapping query_data of
          None \<Rightarrow>
            if cu_read_mapping query_data \<noteq> None then (Some (Comm QueryWriteProtectedError), self)
            else (Some (Comm InaccessibleIDOrQueryError), self)
        | Some handler_function \<Rightarrow> handler_function setting_data self)"


subsection \<open>communication.py: the pattern of valid queries\<close>

text \<open>
  \<^verbatim>\<open>(?:M0|MS|SR,(\d{2}),(\d{3})|SW,(\d{2}),(\d{3}),([+-]\d{9})|FR,(\d{2}),(\d{3}))\r\n\<close>,
  applied with \<^verbatim>\<open>fullmatch\<close>. Every piece of the pattern has a fixed width, so
  a match is found by reading the pieces from left to right.
\<close>

definition crlf :: string where
  "crlf = [CHR 0x0D, CHR 0x0A]"

definition is_digit :: "char \<Rightarrow> bool" where
  "is_digit c = (c \<in> set ''0123456789'')"

text \<open>A literal piece: the rest of the text after it.\<close>

definition lit :: "string \<Rightarrow> string \<Rightarrow> string option" where
  "lit p s = (if take (length p) s = p then Some (drop (length p) s) else None)"

text \<open>\<^verbatim>\<open>\d{n}\<close>: the \<open>n\<close> digits and the rest of the text.\<close>

definition digits :: "nat \<Rightarrow> string \<Rightarrow> (string \<times> string) option" where
  "digits n s =
     (if n \<le> length s \<and> list_all is_digit (take n s) then Some (take n s, drop n s) else None)"

text \<open>\<^verbatim>\<open>[+-]\<close>\<close>

definition sign :: "string \<Rightarrow> (string \<times> string) option" where
  "sign s =
     (case s of
        [] \<Rightarrow> None
      | c # r \<Rightarrow> if c = CHR ''+'' \<or> c = CHR ''-'' then Some ([c], r) else None)"

text \<open>The match object: its seven groups.\<close>

record Match =
  group1 :: "string option"
  group2 :: "string option"
  group3 :: "string option"
  group4 :: "string option"
  group5 :: "string option"
  group6 :: "string option"
  group7 :: "string option"

definition no_groups :: Match where
  "no_groups = \<lparr>group1 = None, group2 = None, group3 = None, group4 = None,
                 group5 = None, group6 = None, group7 = None\<rparr>"

definition alt_SR :: "string \<Rightarrow> Match option" where
  "alt_SR s =
     (case lit ''SR,'' s of None \<Rightarrow> None | Some r1 \<Rightarrow>
     (case digits 2 r1 of None \<Rightarrow> None | Some (g1, r2) \<Rightarrow>
     (case lit '','' r2 of None \<Rightarrow> None | Some r3 \<Rightarrow>
     (case digits 3 r3 of None \<Rightarrow> None | Some (g2, r4) \<Rightarrow>
        if r4 = crlf then Some (no_groups\<lparr>group1 := Some g1, group2 := Some g2\<rparr>)
        else None))))"

definition alt_SW :: "string \<Rightarrow> Match option" where
  "alt_SW s =
     (case lit ''SW,'' s of None \<Rightarrow> None | Some r1 \<Rightarrow>
     (case digits 2 r1 of None \<Rightarrow> None | Some (g3, r2) \<Rightarrow>
     (case lit '','' r2 of None \<Rightarrow> None | Some r3 \<Rightarrow>
     (case digits 3 r3 of None \<Rightarrow> None | Some (g4, r4) \<Rightarrow>
     (case lit '','' r4 of None \<Rightarrow> None | Some r5 \<Rightarrow>
     (case sign r5 of None \<Rightarrow> None | Some (sg, r6) \<Rightarrow>
     (case digits 9 r6 of None \<Rightarrow> None | Some (ds, r7) \<Rightarrow>
        if r7 = crlf
        then Some (no_groups\<lparr>group3 := Some g3, group4 := Some g4, group5 := Some (sg @ ds)\<rparr>)
        else None)))))))"

definition alt_FR :: "string \<Rightarrow> Match option" where
  "alt_FR s =
     (case lit ''FR,'' s of None \<Rightarrow> None | Some r1 \<Rightarrow>
     (case digits 2 r1 of None \<Rightarrow> None | Some (g6, r2) \<Rightarrow>
     (case lit '','' r2 of None \<Rightarrow> None | Some r3 \<Rightarrow>
     (case digits 3 r3 of None \<Rightarrow> None | Some (g7, r4) \<Rightarrow>
        if r4 = crlf then Some (no_groups\<lparr>group6 := Some g6, group7 := Some g7\<rparr>)
        else None))))"

definition fullmatch :: "string \<Rightarrow> Match option" where
  "fullmatch s =
     (if s = ''M0'' @ crlf then Some no_groups
      else if s = ''MS'' @ crlf then Some no_groups
      else (case alt_SR s of
              Some mo \<Rightarrow> Some mo
            | None \<Rightarrow> (case alt_SW s of Some mo \<Rightarrow> Some mo | None \<Rightarrow> alt_FR s)))"

text \<open>
  The command grammar as the specification words it: the five kinds of line,
  each ended by CR LF, with exactly two digits for the id, three for the data
  number, and a sign and nine digits for the value.
\<close>

definition digit_string :: "nat \<Rightarrow> string \<Rightarrow> bool" where
  "digit_string n t = (length t = n \<and> (\<forall>c \<in> set t. is_digit c))"


subsection \<open>Python's int() on the text of a group\<close>

text \<open>
  \<^verbatim>\<open>int(text)\<close> for an optional sign followed by decimal digits, the only texts
  that the groups of the pattern hold; \<open>None\<close> stands for \<^verbatim>\<open>ValueError\<close>.
\<close>

definition digit_value :: "char \<Rightarrow> nat" where
  "digit_value c = of_char c - 48"

definition nat_of_digits :: "string \<Rightarrow> nat option" where
  "nat_of_digits t =
     (if t \<noteq> [] \<and> list_all is_digit t
      then Some (foldl (\<lambda>a c. 10 * a + digit_value c) 0 t) else None)"

definition int_of_str :: "string \<Rightarrow> int option" where
  "int_of_str t =
     (case t of
        [] \<Rightarrow> None
      | c # r \<Rightarrow>
          if c = CHR ''+'' then map_option int (nat_of_digits r)
          else if c = CHR ''-'' then map_option (\<lambda>n. - int n) (nat_of_digits r)
          else map_option int (nat_of_digits t))"

subsection \<open>communication.py: the responses\<close>

text \<open>What a read handler returns: \<^verbatim>\<open>int | str\<close>.\<close>

datatype read_output = IntOut int | StrOut string

text \<open>
  The register handlers of the sensor amplifiers and the noise of a measurement
  are parameters of the protocol engine:
  \<^item> \<open>call_read i h self\<close> is what the bound method \<open>h\<close> of
    \<^verbatim>\<open>connected_sensors[i]\<close> returns or raises;
  \<^item> \<open>call_write i h v self\<close> is what it raises, if anything, and the state it
    leaves;
  \<^item> \<open>noise self\<close> is the state after \<^verbatim>\<open>apply_sensor_uncertainty\<close>.
\<close>

type_synonym read_call = "int \<Rightarrow> handler \<Rightarrow> CommunicationUnit \<Rightarrow> exn + read_output"
type_synonym write_call =
  "int \<Rightarrow> handler \<Rightarrow> int \<Rightarrow> CommunicationUnit \<Rightarrow> exn option \<times> CommunicationUnit"

fun join :: "string \<Rightarrow> string list \<Rightarrow> string" where
  "join sep [] = []"
| "join sep [x] = x"
| "join sep (x # y # r) = x @ sep @ join sep (y # r)"

definition response_M0 :: "CommunicationUnit \<Rightarrow> string" where
  "response_M0 self =
     ''M0,'' @ join '','' (map stringified_value (connected_sensors self)) @ crlf"

definition response_MS :: "CommunicationUnit \<Rightarrow> string" where
  "response_MS self =
     ''MS,'' @ join '','' (map (\<lambda>u. stringified_state u @ '','' @ stringified_value u)
                              (connected_sensors self)) @ crlf"

text \<open>The local variable \<^verbatim>\<open>output\<close> of \<^verbatim>\<open>response_SR\<close>, and its last two lines.\<close>

definition SR_output :: "read_call \<Rightarrow> CommunicationUnit \<Rightarrow> int \<Rightarrow> int \<Rightarrow> exn + read_output" where
  "SR_output call_read self ident query_data =
     (if ident = 0 then map_sum (\<lambda>e. e) IntOut (cu_handle_read self query_data)
      else
        case py_index (connected_sensors self) (ident - 1) of
          None \<Rightarrow> Inl (Comm IDOutsideValidRangeError)
        | Some relevant_sensor \<Rightarrow>
            handle_read (\<lambda>h. call_read (ident - 1) h self) query_data)"

definition SR_reply :: "int \<Rightarrow> int \<Rightarrow> read_output \<Rightarrow> string" where
  "SR_reply ident query_data out =
     (case out of
        StrOut t \<Rightarrow> ''SR,'' @ format_0gt 2 ident @ '','' @ format_0gt 3 query_data @ '','' @ t @ crlf
      | IntOut n \<Rightarrow>
          ''SR,'' @ format_0gt 2 ident @ '','' @ format_0gt 3 query_data @ '',''
            @ format_plus010d n @ crlf)"

definition response_SR :: "read_call \<Rightarrow> CommunicationUnit \<Rightarrow> string \<Rightarrow> string \<Rightarrow> exn + string" where
  "response_SR call_read self id_text query_text =
     (case int_of_str id_text of None \<Rightarrow> Inl (Comm CommandFormatError) | Some ident \<Rightarrow>
     (case int_of_str query_text of None \<Rightarrow> Inl (Comm CommandFormatError) | Some query_data \<Rightarrow>
     (case SR_output call_read self ident query_data of
        Inl NotImplementedError \<Rightarrow> Inr ''NOT_IMPLEMENTED!''
      | Inl e \<Rightarrow> Inl e
      | Inr out \<Rightarrow> Inr (SR_reply ident query_data out))))"

definition response_SW ::
  "write_call \<Rightarrow> CommunicationUnit \<Rightarrow> string \<Rightarrow> string \<Rightarrow> string
     \<Rightarrow> (exn + string) \<times> CommunicationUnit" where
  "response_SW call_write self id_text query_text setting_text =
     (case int_of_str id_text of None \<Rightarrow> (Inl (Comm CommandFormatError), self) | Some ident \<Rightarrow>
     (case int_of_str query_text of None \<Rightarrow> (Inl (Comm CommandFormatError), self) | Some query_data \<Rightarrow>
     (case int_of_str setting_text of None \<Rightarrow> (Inl (Comm CommandFormatError), self) | Some setting_data \<Rightarrow>
        let (raised, self1) =
              (if ident = 0 then cu_handle_write query_data setting_data self
               else
                 (case py_index (connected_sensors self) (ident - 1) of
                    None \<Rightarrow> (Some (Comm IDOutsideValidRangeError), self)
                  | Some relevant_sensor \<Rightarrow>
                      handle_write (call_write (ident - 1)) query_data setting_data self))
        in (case raised of
              Some NotImplementedError \<Rightarrow> (Inr ''NOT_IMPLEMENTED!'', self1)
            | Some e \<Rightarrow> (Inl e, self1)
            | None \<Rightarrow>
                (Inr (''SW,'' @ format_0gt 2 ident @ '','' @ format_0gt 3 query_data @ crlf),
                 self1)))))"

definition response_FR :: "CommunicationUnit \<Rightarrow> string \<Rightarrow> string \<Rightarrow> exn + string" where
  "response_FR self id_text query_text =
     (case int_of_str id_text of None \<Rightarrow> Inl (Comm CommandFormatError) | Some ident \<Rightarrow>
     (case int_of_str query_text of None \<Rightarrow> Inl (Comm CommandFormatError) | Some query_data \<Rightarrow>
        if ident = 0 then Inl (Comm IDOutsideValidRangeError)
        else
          (case py_index (connected_sensors self) (ident - 1) of
             None \<Rightarrow> Inl (Comm IDOutsideValidRangeError)
           | Some relevant_sensor \<Rightarrow>
               Inr (''FR,'' @ format_0gt 2 ident @ '','' @ format_0gt 3 query_data @ '',''
                      @ format_plus010d (int (decimal_position relevant_sensor)) @ crlf))))"

text \<open>
  \<^verbatim>\<open>response\<close>: an argument that is \<^verbatim>\<open>None\<close> where the method asserts it is not
  raises \<^verbatim>\<open>AssertionError\<close>.
\<close>

definition response ::
  "read_call \<Rightarrow> write_call \<Rightarrow> (CommunicationUnit \<Rightarrow> CommunicationUnit) \<Rightarrow> CommunicationUnit
     \<Rightarrow> string \<Rightarrow> string option \<Rightarrow> string option \<Rightarrow> string option
     \<Rightarrow> (exn + string) \<times> CommunicationUnit" where
  "response call_read call_write noise self query ident query_data setting_data =
     (if query = ''M0'' then (let self1 = noise self in (Inr (response_M0 self1), self1))
      else if query = ''MS'' then (let self1 = noise self in (Inr (response_MS self1), self1))
      else if query = ''SR'' then
        (case (ident, query_data) of
           (Some i, Some q) \<Rightarrow> (response_SR call_read self i q, self)
         | _ \<Rightarrow> (Inl OtherException, self))
      else if query = ''SW'' then
        (case (ident, query_data, setting_data) of
           (Some i, Some q, Some v) \<Rightarrow> response_SW call_write self i q v
         | _ \<Rightarrow> (Inl OtherException, self))
      else if query = ''FR'' then
        (case (ident, query_data) of
           (Some i, Some q) \<Rightarrow> (response_FR self i q, self)
         | _ \<Rightarrow> (Inl OtherException, self))
      else (Inr (''MISSING_RESPONSE!'' @ crlf), self))"

subsection \<open>communication.py: handle_query\<close>

definition error_reply :: "string \<Rightarrow> CommunicationException \<Rightarrow> string" where
  "error_reply query e = ''ER,'' @ query @ '','' @ format_0gt 3 (error_code e) @ crlf"

text \<open>
  The result is the reply, or the exception that \<^verbatim>\<open>handle_query\<close> lets through,
  and the state of the communication unit afterwards.
\<close>

definition handle_query ::
  "read_call \<Rightarrow> write_call \<Rightarrow> (CommunicationUnit \<Rightarrow> CommunicationUnit) \<Rightarrow> CommunicationUnit
     \<Rightarrow> string \<Rightarrow> (exn + string) \<times> CommunicationUnit" where
  "handle_query call_read call_write noise self translated_query =
     (let query = take 2 translated_query in
      case fullmatch translated_query of
        None \<Rightarrow> (Inr (error_reply query CommandFormatError), self)
      | Some mo \<Rightarrow>
          if cu_internal_error self \<noteq> NO_ERROR
          then (Inr (error_reply query GeneralSystemError), self)
          else
            let (ident, query_data, setting_data) =
                  (if query = ''SR'' then (group1 mo, group2 mo, None)
                   else if query = ''SW'' then (group3 mo, group4 mo, group5 mo)
                   else if query = ''FR'' then (group6 mo, group7 mo, None)
                   else (None, None, None))
            in (case response call_read call_write noise self query ident query_data setting_data of
                  (Inr reply, self1) \<Rightarrow> (Inr reply, self1)
                | (Inl (Comm e), self1) \<Rightarrow> (Inr (error_reply query e), self1)
                | (Inl other, self1) \<Rightarrow> (Inl other, self1)))"


subsection \<open>Construction\<close>

text \<open>
  \<^verbatim>\<open>SensorUnit.__init__\<close>, for the attributes of the record, with \<open>now\<close> the time
  of construction. The banks and settings are those of
  \<^verbatim>\<open>restore_default_settings\<close>, which arms the EEPROM timer for three seconds;
  \<^verbatim>\<open>set_system_parameters\<close> then asks for two, which leaves the later deadline.
  Assigning \<^verbatim>\<open>raw_value = initial_value\<close> runs the cascade of updates: with
  direction 1, tilt 1 and offset 0 (no calibration), no calculation and sample
  hold without timing input, R.V., CALC and P.V. all become
  \<^verbatim>\<open>1 * (1 * raw - shift_target) + 0\<close>, or stay absent with the raw value.
\<close>

definition SensorUnit_init ::
  "real option \<Rightarrow> nat \<Rightarrow> real \<Rightarrow> real \<Rightarrow> real \<Rightarrow> real \<Rightarrow> real \<Rightarrow> real \<Rightarrow> real \<Rightarrow> SensorUnit" where
  "SensorUnit_init initial_value dp default_threshold_high default_threshold_low
       default_shift_target default_bank_analog_upper_limit default_bank_analog_lower_limit
       default_tolerance_setting_range now =
     (let create_bank = \<lparr>threshold_high = default_threshold_high,
                          threshold_low = default_threshold_low,
                          shift_target = default_shift_target,
                          analog_upper_limit = default_bank_analog_upper_limit,
                          analog_lower_limit = default_bank_analog_lower_limit\<rparr>
      in \<lparr>decimal_position = dp,
          lower_bound = real_of_int (- 99999) / 10 ^ dp,
          upper_bound = real_of_int 99999 / 10 ^ dp,
          internal_error = ILError_NO_ERROR,
          is_main_unit = True,
          raw_value = initial_value,
          p_v_value = map_option (\<lambda>raw. 1 * (1 * raw - default_shift_target) + 0) initial_value,
          banks = (create_bank, create_bank, create_bank, create_bank),
          active_bank_setting = Bank0,
          switch_banks_via_external_input = False,
          external_input_use_user_settings = False,
          external_input_1 = False,
          external_input_1_setting = ZERO_SHIFT_1,
          external_input_2 = False,
          external_input_2_setting = RESET_2,
          external_input_3 = False,
          external_input_3_setting = TIMING_3,
          external_input_4 = False,
          external_input_4_setting = UNUSED_4,
          stored_laser_emission_stop = False,
          output_mode_normally_closed = False,
          tolerance_setting_range = default_tolerance_setting_range,
          zero_shift_saved_in_memory = False,
          zero_shifting_result = NORMAL_TERMINATION,
          tuning_result = NORMAL_TERMINATION,
          eeprom_write_result = OPERATING,
          next_eeprom_write = Some (now + 3.0)\<rparr>)"

text \<open>\<^verbatim>\<open>SensorUnit.create_IL_030\<close> and \<^verbatim>\<open>SensorUnit.create_IL_2000\<close>.\<close>

definition create_IL_030 :: "real \<Rightarrow> SensorUnit" where
  "create_IL_030 now = SensorUnit_init (Some 0) 3 5 (- 5) 0 10 (- 10) 0.2 now"

definition create_IL_2000 :: "real \<Rightarrow> SensorUnit" where
  "create_IL_2000 now = SensorUnit_init (Some 0) 1 500 (- 500) 0 1000 (- 1000) 20 now"

text \<open>
  \<^verbatim>\<open>CommunicationUnit.__init__\<close>, \<^verbatim>\<open>assign_main_unit\<close> and \<^verbatim>\<open>add_unit\<close>. The
  \<^verbatim>\<open>IndexError\<close> of an empty or one-element list ends \<^verbatim>\<open>assign_main_unit\<close>
  after the assignments made so far.
\<close>

definition CommunicationUnit_init :: CommunicationUnit where
  "CommunicationUnit_init =
     \<lparr>connected_sensors = [], cu_internal_error = NO_ERROR, mask_sensor_status = False\<rparr>"

definition assign_main_unit :: "CommunicationUnit \<Rightarrow> CommunicationUnit" where
  "assign_main_unit self =
     (case connected_sensors self of
        [] \<Rightarrow> self
      | [main_unit] \<Rightarrow> self\<lparr>connected_sensors := [main_unit\<lparr>is_main_unit := True\<rparr>]\<rparr>
      | main_unit # rest \<Rightarrow>
          self\<lparr>connected_sensors :=
                 main_unit\<lparr>is_main_unit := True\<rparr> # map (\<lambda>su. su\<lparr>is_main_unit := False\<rparr>) rest\<rparr>)"

definition add_unit :: "SensorUnit \<Rightarrow> CommunicationUnit \<Rightarrow> CommunicationUnit" where
  "add_unit unit self =
     assign_main_unit (self\<lparr>connected_sensors := connected_sensors self @ [unit]\<rparr>)"

text \<open>
  Stand-ins for the parameters of the protocol engine, for requests that reach
  no handler of a sensor amplifier and add no noise.
\<close>

definition unimplemented_read :: read_call where
  "unimplemented_read i h self = Inl NotImplementedError"

definition unimplemented_write :: write_call where
  "unimplemented_write i h v self = (Some NotImplementedError, self)"

definition no_noise :: "CommunicationUnit \<Rightarrow> CommunicationUnit" where
  "no_noise self = self"

text \<open>
  The call of a bound write method of \<^verbatim>\<open>connected_sensors[i]\<close>: the method runs on
  that sensor, and the list holds the sensor as the method left it.
\<close>

definition bound_write ::
  "(int \<Rightarrow> SensorUnit \<Rightarrow> CommunicationException option \<times> SensorUnit)
     \<Rightarrow> int \<Rightarrow> int \<Rightarrow> CommunicationUnit \<Rightarrow> exn option \<times> CommunicationUnit" where
  "bound_write method i v self =
     (case py_index (connected_sensors self) i of
        None \<Rightarrow> (Some OtherException, self)
      | Some sensor \<Rightarrow>
          let (raised, sensor1) = method v sensor;
              position = nat (if 0 \<le> i then i else int (length (connected_sensors self)) + i)
          in (map_option Comm raised,
              self\<lparr>connected_sensors := (connected_sensors self)[position := sensor1]\<rparr>))"

subsection \<open>Rounding as the specification words it\<close>



subsection \<open>States used below\<close>

text \<open>
  An IL-030 whose banks are switched by the external inputs, with input 1
  assigned to bank A and switched on, and bank 0 stored as the bank setting.
\<close>

definition bank_a_input_state :: SensorUnit where
  "bank_a_input_state =
     (create_IL_030 0)\<lparr>switch_banks_via_external_input := True,
                        external_input_use_user_settings := True,
                        external_input_1_setting := BANK_A_1,
                        external_input_1 := True\<rparr>"

text \<open>
  The EEPROM timer is armed for \<open>duration\<close> at time \<open>now\<close>: the result reads
  OPERATING and the deadline is the later of the previous deadline, if there
  was one, and \<open>now + duration\<close>.
\<close>

definition armed :: "real \<Rightarrow> real \<Rightarrow> SensorUnit \<Rightarrow> SensorUnit \<Rightarrow> bool" where
  "armed now duration before after =
     (eeprom_write_result after = OPERATING
      \<and> next_eeprom_write after =
          (case next_eeprom_write before of
             None \<Rightarrow> Some (now + duration)
           | Some deadline \<Rightarrow> Some (max deadline (now + duration))))"

text \<open>
  The write handlers modelled above, bound to sensor \<open>i\<close>, as a parameter of the
  protocol engine; the other handlers are outside the model and stand as
  \<^verbatim>\<open>NotImplementedError\<close>.
\<close>

definition modelled_write_call :: "real \<Rightarrow> write_call" where
  "modelled_write_call now i h v self =
     (if h = Method ''write_001_zero_shift_execution_request''
        then bound_write (write_001_zero_shift_execution_request now) i v self
      else if h = Method ''write_002_zero_shift_reset_request''
        then bound_write (write_002_zero_shift_reset_request now) i v self
      else if h = Method ''write_014_tolerance_tuning_request''
        then bound_write (write_014_tolerance_tuning_request now) i v self
      else (Some NotImplementedError, self))"

text \<open>
  A bus with one amplifier constructed with \<^verbatim>\<open>initial_value=None\<close> and the
  defaults of \<^verbatim>\<open>__init__\<close> (those of the IL-030): it has no raw value.
\<close>

definition absent_raw_bus :: CommunicationUnit where
  "absent_raw_bus =
     add_unit (SensorUnit_init None 3 5 (- 5) 0 10 (- 10) 0.2 0) CommunicationUnit_init"

section \<open>Properties\<close>


subsection \<open>Number formatting\<close>

declare str_nat.simps [simp del]












subsection \<open>The pattern and the command grammar\<close>

lemma replicate_numeral: "replicate (numeral k) x = x # replicate (pred_numeral k) x"
  by (simp add: numeral_eq_Suc)

lemma lit_Some: "lit p s = Some r \<longleftrightarrow> s = p @ r"
proof
  assume "lit p s = Some r"
  then have "take (length p) s = p" "r = drop (length p) s"
    by (auto simp: lit_def split: if_splits)
  then show "s = p @ r" by (metis append_take_drop_id)
next
  assume "s = p @ r"
  then show "lit p s = Some r" by (simp add: lit_def)
qed

lemma lit_None: "lit p s = None \<longleftrightarrow> (\<forall>r. s \<noteq> p @ r)"
  using lit_Some[of p s] by (metis not_Some_eq)

lemma digits_Some: "digits n s = Some (d, r) \<longleftrightarrow> s = d @ r \<and> digit_string n d"
proof
  assume "digits n s = Some (d, r)"
  then have h: "n \<le> length s" "list_all is_digit (take n s)" "d = take n s" "r = drop n s"
    by (auto simp: digits_def split: if_splits)
  then show "s = d @ r \<and> digit_string n d"
    by (auto simp: digit_string_def list_all_iff)
next
  assume "s = d @ r \<and> digit_string n d"
  then show "digits n s = Some (d, r)"
    by (auto simp: digits_def digit_string_def list_all_iff)
qed


lemma lit_Nil: "lit [] s = Some s"
  by (simp add: lit_def)

lemma lit_Cons: "lit (c # p) (d # s) = (if c = d then lit p s else None)"
  by (simp add: lit_def)

lemma digits_append: "digit_string n d \<Longrightarrow> digits n (d @ r) = Some (d, r)"
  by (simp add: digits_Some)

lemma sign_Cons:
  "c = CHR ''+'' \<or> c = CHR ''-'' \<Longrightarrow> sign (c # r) = Some ([c], r)"
  by (auto simp: sign_def)


lemma alt_SR_intro:
  "digit_string 2 id2 \<Longrightarrow> digit_string 3 q3 \<Longrightarrow>
     alt_SR (''SR,'' @ id2 @ '','' @ q3 @ crlf)
       = Some (no_groups\<lparr>group1 := Some id2, group2 := Some q3\<rparr>)"
  by (simp add: alt_SR_def lit_Nil lit_Cons digits_append)



lemma alt_SW_intro:
  "digit_string 2 id2 \<Longrightarrow> digit_string 3 q3 \<Longrightarrow> sg = CHR ''+'' \<or> sg = CHR ''-'' \<Longrightarrow>
   digit_string 9 v9 \<Longrightarrow>
     alt_SW (''SW,'' @ id2 @ '','' @ q3 @ '','' @ [sg] @ v9 @ crlf)
       = Some (no_groups\<lparr>group3 := Some id2, group4 := Some q3, group5 := Some ([sg] @ v9)\<rparr>)"
  by (simp add: alt_SW_def lit_Nil lit_Cons digits_append sign_Cons)








lemma error_reply_254: "error_reply q GeneralSystemError = ''ER,'' @ q @ '',254'' @ crlf"
  by (simp add: error_reply_def format_0gt_def str_int_def rjust0_def str_nat.simps digit_char_def)

lemma fullmatch_SR:
  assumes "digit_string 2 id2" "digit_string 3 q3"
  shows "fullmatch (''SR,'' @ id2 @ '','' @ q3 @ crlf) \<noteq> None"
  using alt_SR_intro[OF assms] by (simp add: fullmatch_def)

lemma fullmatch_SW:
  assumes "digit_string 2 id2" "digit_string 3 q3" "sg = CHR ''+'' \<or> sg = CHR ''-''"
    "digit_string 9 v9"
  shows "fullmatch (''SW,'' @ id2 @ '','' @ q3 @ '','' @ [sg] @ v9 @ crlf) \<noteq> None"
  using alt_SW_intro[OF assms] by (simp add: fullmatch_def split: option.splits)

lemma handle_query_254:
  assumes "fullmatch line \<noteq> None" "cu_internal_error self \<noteq> NO_ERROR"
  shows "handle_query call_read call_write noise self line
           = (Inr (''ER,'' @ take 2 line @ '',254'' @ crlf), self)"
proof -
  from assms(1) obtain mo where "fullmatch line = Some mo" by auto
  then show ?thesis using assms(2) by (simp add: handle_query_def error_reply_254)
qed


subsection \<open>Requests outside the grammar\<close>



subsection \<open>System error of the communication unit\<close>

text \<open>
  Claim C4. When the internal error of the communication unit is not NO_ERROR,
  every grammatically valid SR request and every grammatically valid SW request
  is answered with ER, the command and 254, and the state is returned as it
  was: the register is neither read nor written.
\<close>

theorem handle_query_system_error:
  assumes "digit_string 2 id2" "digit_string 3 q3"
    and "sg = CHR ''+'' \<or> sg = CHR ''-''" "digit_string 9 v9"
    and "cu_internal_error self \<noteq> NO_ERROR"
  shows "handle_query call_read call_write noise self (''SR,'' @ id2 @ '','' @ q3 @ crlf)
           = (Inr (''ER,SR,254'' @ crlf), self)
       \<and> handle_query call_read call_write noise self
             (''SW,'' @ id2 @ '','' @ q3 @ '','' @ [sg] @ v9 @ crlf)
           = (Inr (''ER,SW,254'' @ crlf), self)"
  using handle_query_254[OF fullmatch_SR[OF assms(1,2)] assms(5), of call_read call_write noise]
        handle_query_254[OF fullmatch_SW[OF assms(1-4)] assms(5), of call_read call_write noise]
  by simp

theorem handle_query_system_error_witness:
  "digit_string 2 ''01'' \<and> digit_string 3 ''136'' \<and> digit_string 9 ''000000002''
   \<and> cu_internal_error (CommunicationUnit_init\<lparr>cu_internal_error := ERROR_057\<rparr>) \<noteq> NO_ERROR
   \<and> handle_query unimplemented_read unimplemented_write no_noise
         (CommunicationUnit_init\<lparr>cu_internal_error := ERROR_057\<rparr>) (''SR,01,136'' @ crlf)
       = (Inr (''ER,SR,254'' @ crlf), CommunicationUnit_init\<lparr>cu_internal_error := ERROR_057\<rparr>)
   \<and> handle_query unimplemented_read unimplemented_write no_noise
         (CommunicationUnit_init\<lparr>cu_internal_error := ERROR_057\<rparr>)
         (''SW,01,136,+000000002'' @ crlf)
       = (Inr (''ER,SW,254'' @ crlf), CommunicationUnit_init\<lparr>cu_internal_error := ERROR_057\<rparr>)"
proof -
  have d: "digit_string 2 ''01''" "digit_string 3 ''136''" "digit_string 9 ''000000002''"
    by (simp_all add: digit_string_def is_digit_def)
  have e: "cu_internal_error (CommunicationUnit_init\<lparr>cu_internal_error := ERROR_057\<rparr>) \<noteq> NO_ERROR"
    by simp
  have s: "CHR ''+'' = CHR ''+'' \<or> CHR ''+'' = CHR ''-''" by simp
  show ?thesis
    using d e handle_query_system_error[OF d(1) d(2) s d(3) e, of unimplemented_read
        unimplemented_write no_noise]
    by simp
qed


subsection \<open>The fixed-point codec\<close>














subsection \<open>The judgment value on the wire\<close>








subsection \<open>The active bank\<close>

lemma active_bank_index_is_setting: "active_bank_index self = active_bank_setting self"
  by (simp add: active_bank_index_def Let_def)

text \<open>
  Claim C5 does not hold of the code. With banks switched by the external inputs
  and the user settings of the inputs in force, input 1 assigned to bank A and
  switched on gives the bank index 2 * 0 + 1 = 1, which \<^verbatim>\<open>active_bank_index\<close>
  computes and then drops: the property, and register 043 with it, returns the
  stored bank setting 0.
\<close>

theorem active_bank_index_ignores_external_inputs:
  "switch_banks_via_external_input bank_a_input_state
   \<and> external_input_use_user_settings bank_a_input_state
   \<and> bank_a bank_a_input_state \<and> \<not> bank_b bank_a_input_state
   \<and> bank_index bank_a_input_state = 1
   \<and> active_bank_index bank_a_input_state = Bank0
   \<and> read_043_bank_status bank_a_input_state = 0
   \<and> bank_number (active_bank_index bank_a_input_state) \<noteq> bank_index bank_a_input_state"
  by (simp add: bank_a_input_state_def create_IL_030_def SensorUnit_init_def Let_def
      bank_a_def bank_b_def bank_index_def active_bank_index_def read_043_bank_status_def)

subsection \<open>The EEPROM timer\<close>

lemma start_eeprom_write_armed: "armed now d self (start_eeprom_write now d self)"
  by (auto simp: armed_def start_eeprom_write_def Let_def max_def split: option.splits)



subsection \<open>Zero shift\<close>

lemma write_mapping_1: "write_mapping 1 = Some (Method ''write_001_zero_shift_execution_request'')"
  by (simp add: write_mapping_def write_mapping_literal_def)

lemma write_mapping_14: "write_mapping 14 = Some (Method ''write_014_tolerance_tuning_request'')"
  by (simp add: write_mapping_def write_mapping_literal_def)

lemma fullmatch_SW_001:
  "fullmatch (''SW,01,001,+000000001'' @ crlf)
     = Some (no_groups\<lparr>group3 := Some ''01'', group4 := Some ''001'', group5 := Some ''+000000001''\<rparr>)"
  by (simp add: fullmatch_def alt_SR_def alt_SW_def lit_def digits_def sign_def is_digit_def crlf_def)

lemma fullmatch_SW_014:
  "fullmatch (''SW,01,014,+000000001'' @ crlf)
     = Some (no_groups\<lparr>group3 := Some ''01'', group4 := Some ''014'', group5 := Some ''+000000001''\<rparr>)"
  by (simp add: fullmatch_def alt_SR_def alt_SW_def lit_def digits_def sign_def is_digit_def crlf_def)

lemma int_of_str_examples:
  "int_of_str ''01'' = Some 1" "int_of_str ''001'' = Some 1" "int_of_str ''014'' = Some 14"
  "int_of_str ''+000000001'' = Some 1" "int_of_str ''00'' = Some 0" "int_of_str ''077'' = Some 77"
  by (simp_all add: int_of_str_def nat_of_digits_def is_digit_def digit_value_def)

lemma write_001_general:
  "fst (write_001_zero_shift_execution_request now 1 self) = None
   \<and> (raw_value self = None \<longrightarrow>
        write_001_zero_shift_execution_request now 1 self
          = (None, self\<lparr>zero_shifting_result := ABNORMAL_TERMINATION\<rparr>))
   \<and> (\<forall>v. raw_value self = Some v \<longrightarrow>
        sensor_shift_target (snd (write_001_zero_shift_execution_request now 1 self)) = v
        \<and> zero_shifting_result (snd (write_001_zero_shift_execution_request now 1 self))
            = NORMAL_TERMINATION)"
  by (cases "banks self"; cases "active_bank_setting self")
    (auto simp: write_001_zero_shift_execution_request_def Let_def change_shift_target_def
      sensor_shift_target_def active_bank_def active_bank_index_def resolve_index_def
      start_eeprom_write_def split: option.splits)

lemma write_014_raises:
  "p_v_value self = None \<Longrightarrow>
     fst (write_014_tolerance_tuning_request now 1 self) = Some NonExecutableStateError"
  by (simp add: write_014_tolerance_tuning_request_def Let_def)

lemma absent_raw_bus_sensors:
  "connected_sensors absent_raw_bus = [(SensorUnit_init None 3 5 (- 5) 0 10 (- 10) 0.2 0)\<lparr>is_main_unit := True\<rparr>]"
  "cu_internal_error absent_raw_bus = NO_ERROR"
  by (simp_all add: absent_raw_bus_def add_unit_def assign_main_unit_def CommunicationUnit_init_def)

lemma absent_raw_sensor:
  "raw_value (SensorUnit_init None dp a b c d e f now) = None"
  "p_v_value (SensorUnit_init None dp a b c d e f now) = None"
  by (simp_all add: SensorUnit_init_def Let_def)

lemma format_small:
  "format_0gt 2 1 = ''01''" "format_0gt 3 1 = ''001''" "format_0gt 3 14 = ''014''"
  "format_0gt 3 12 = ''012''" "format_0gt 2 0 = ''00''" "format_0gt 3 77 = ''077''"
  by (simp_all add: format_0gt_def str_int_def rjust0_def str_nat.simps digit_char_def
      replicate_numeral)

lemma response_SW_001:
  "response_SW (modelled_write_call 1) absent_raw_bus ''01'' ''001'' ''+000000001''
     = (Inr (''SW,01,001'' @ crlf),
        absent_raw_bus\<lparr>connected_sensors :=
          [(SensorUnit_init None 3 5 (- 5) 0 10 (- 10) 0.2 0)
             \<lparr>is_main_unit := True, zero_shifting_result := ABNORMAL_TERMINATION\<rparr>]\<rparr>)"
  by (simp add: response_SW_def int_of_str_examples py_index_def absent_raw_bus_sensors
      handle_write_def write_mapping_1 modelled_write_call_def bound_write_def
      write_001_zero_shift_execution_request_def absent_raw_sensor format_small Let_def)

lemma response_SW_014:
  "fst (response_SW (modelled_write_call 1) absent_raw_bus ''01'' ''014'' ''+000000001'')
     = Inl (Comm NonExecutableStateError)"
  by (simp add: response_SW_def int_of_str_examples py_index_def absent_raw_bus_sensors
      handle_write_def write_mapping_14 modelled_write_call_def bound_write_def
      write_014_tolerance_tuning_request_def absent_raw_sensor format_small Let_def)

text \<open>
  Claim C8 does not hold of the code where the raw value is absent. The request
  SW,01,001,+000000001 to an amplifier without a raw value sets
  \<^verbatim>\<open>zero_shifting_result\<close> to ABNORMAL_TERMINATION and is acknowledged with
  SW,01,001: no error 012 is raised. The neighbouring request 014 in the same
  state is answered with ER,SW,012.
\<close>

theorem zero_shift_without_raw_value_is_acknowledged:
  "map raw_value (connected_sensors absent_raw_bus) = [None]
   \<and> fst (handle_query unimplemented_read (modelled_write_call 1) no_noise absent_raw_bus
            (''SW,01,001,+000000001'' @ crlf)) = Inr (''SW,01,001'' @ crlf)
   \<and> map zero_shifting_result
         (connected_sensors (snd (handle_query unimplemented_read (modelled_write_call 1)
            no_noise absent_raw_bus (''SW,01,001,+000000001'' @ crlf))))
       = [ABNORMAL_TERMINATION]
   \<and> fst (handle_query unimplemented_read (modelled_write_call 1) no_noise absent_raw_bus
            (''SW,01,014,+000000001'' @ crlf)) = Inr (''ER,SW,012'' @ crlf)"
proof -
  have a: "map raw_value (connected_sensors absent_raw_bus) = [None]"
    by (simp add: absent_raw_bus_sensors absent_raw_sensor)
  have b: "handle_query unimplemented_read (modelled_write_call 1) no_noise absent_raw_bus
            (''SW,01,001,+000000001'' @ crlf)
           = response_SW (modelled_write_call 1) absent_raw_bus ''01'' ''001'' ''+000000001''"
    by (simp add: handle_query_def fullmatch_SW_001[simplified] absent_raw_bus_sensors
        response_def no_groups_def response_SW_001[simplified])
  have c: "fst (handle_query unimplemented_read (modelled_write_call 1) no_noise absent_raw_bus
            (''SW,01,014,+000000001'' @ crlf)) = Inr (error_reply ''SW'' NonExecutableStateError)"
  proof -
    obtain st where "response_SW (modelled_write_call 1) absent_raw_bus ''01'' ''014'' ''+000000001''
        = (Inl (Comm NonExecutableStateError), st)"
      using response_SW_014 by (metis prod.collapse)
    then show ?thesis
      by (simp add: handle_query_def fullmatch_SW_014[simplified] absent_raw_bus_sensors
          response_def no_groups_def)
  qed
  have d: "error_reply ''SW'' NonExecutableStateError = ''ER,SW,012'' @ crlf"
    by (simp add: error_reply_def format_small)
  show ?thesis unfolding b c d response_SW_001 using a by simp
qed

subsection \<open>Dispatch of the amplifier registers\<close>

text \<open>
  Claim C2. For an access to a register of an amplifier by SR
  (\<^verbatim>\<open>handle_read\<close>) or SW (\<^verbatim>\<open>handle_write\<close>): a data number above 223 gives
  error 020; a data number in both tables lets the read and the write proceed
  to their handlers; a write to a data number that is only readable gives error
  014; a read of a data number that is only writable gives error 016; and an
  access to a data number in neither table gives error 031.
\<close>

theorem register_access_dispatch:
  "(query_data > 223 \<longrightarrow>
      handle_read call_r query_data = Inl (Comm QueryOutsideValidRangeError)
      \<and> handle_write call_w query_data v st = (Some (Comm QueryOutsideValidRangeError), st))
   \<and> (query_data \<le> 223 \<longrightarrow>
        (\<forall>r w. read_mapping query_data = Some r \<and> write_mapping query_data = Some w \<longrightarrow>
           handle_read call_r query_data = call_r r
           \<and> handle_write call_w query_data v st = call_w w v st)
      \<and> (\<forall>r. read_mapping query_data = Some r \<and> write_mapping query_data = None \<longrightarrow>
           handle_read call_r query_data = call_r r
           \<and> handle_write call_w query_data v st = (Some (Comm QueryWriteProtectedError), st))
      \<and> (\<forall>w. read_mapping query_data = None \<and> write_mapping query_data = Some w \<longrightarrow>
           handle_read call_r query_data = Inl (Comm QueryReadProtectedError)
           \<and> handle_write call_w query_data v st = call_w w v st)
      \<and> (read_mapping query_data = None \<and> write_mapping query_data = None \<longrightarrow>
           handle_read call_r query_data = Inl (Comm InaccessibleIDOrQueryError)
           \<and> handle_write call_w query_data v st = (Some (Comm InaccessibleIDOrQueryError), st)))
   \<and> error_code QueryOutsideValidRangeError = 20
   \<and> error_code QueryWriteProtectedError = 14
   \<and> error_code QueryReadProtectedError = 16
   \<and> error_code InaccessibleIDOrQueryError = 31"
  by (auto simp: handle_read_def handle_write_def)

lemma register_table_examples:
  "read_mapping 37 = Some (Method ''read_037_judgment_value'')" "write_mapping 37 = None"
  "read_mapping 1 = None"
  "read_mapping 97 = Some (Method ''read_097_key_lock_function'')"
  "write_mapping 97 = Some (Method ''write_097_key_lock_function'')"
  "read_mapping 0 = None" "write_mapping 0 = None"
  "read_mapping 72 = Some (Partial ''read_06X_shift_target_value_bank_Y'' Bank1)"
  by (simp_all add: read_mapping_def write_mapping_def read_mapping_literal_def
      write_mapping_literal_def bank_read_entries_def bank_write_entries_def)

theorem register_access_dispatch_witness:
  "(500::int) > 223
   \<and> handle_read Inr 500 = Inl (Comm QueryOutsideValidRangeError)
   \<and> (37::int) \<le> 223 \<and> read_mapping 37 = Some (Method ''read_037_judgment_value'')
   \<and> write_mapping 37 = None
   \<and> handle_read Inr 37 = Inr (Method ''read_037_judgment_value'')
   \<and> handle_write (unimplemented_write 0) 37 5 CommunicationUnit_init
       = (Some (Comm QueryWriteProtectedError), CommunicationUnit_init)
   \<and> read_mapping 1 = None
   \<and> write_mapping 1 = Some (Method ''write_001_zero_shift_execution_request'')
   \<and> handle_read Inr 1 = Inl (Comm QueryReadProtectedError)
   \<and> read_mapping 0 = None \<and> write_mapping 0 = None
   \<and> handle_read Inr 0 = Inl (Comm InaccessibleIDOrQueryError)
   \<and> read_mapping 97 = Some (Method ''read_097_key_lock_function'')
   \<and> write_mapping 97 = Some (Method ''write_097_key_lock_function'')
   \<and> handle_read Inr 97 = Inr (Method ''read_097_key_lock_function'')
   \<and> handle_write (unimplemented_write 0) 97 1 CommunicationUnit_init
       = unimplemented_write 0 (Method ''write_097_key_lock_function'') 1 CommunicationUnit_init"
proof -
  note t = register_access_dispatch[where call_r = Inr and call_w = "unimplemented_write 0"
      and st = CommunicationUnit_init]
  have a: "handle_read Inr 500 = Inl (Comm QueryOutsideValidRangeError)"
    using t[of 500 5] by simp
  have b: "handle_read Inr 37 = Inr (Method ''read_037_judgment_value'')"
    "handle_write (unimplemented_write 0) 37 5 CommunicationUnit_init
       = (Some (Comm QueryWriteProtectedError), CommunicationUnit_init)"
    using t[of 37 5] register_table_examples(1,2) by simp_all
  have c: "handle_read Inr 1 = Inl (Comm QueryReadProtectedError)"
    using t[of 1 5] register_table_examples(3) write_mapping_1 by simp
  have d: "handle_read Inr 0 = Inl (Comm InaccessibleIDOrQueryError)"
    using t[of 0 5] register_table_examples(6,7) by simp
  have e: "handle_read Inr 97 = Inr (Method ''read_097_key_lock_function'')"
    "handle_write (unimplemented_write 0) 97 1 CommunicationUnit_init
       = unimplemented_write 0 (Method ''write_097_key_lock_function'') 1 CommunicationUnit_init"
    using t[of 97 1] register_table_examples(4,5) by simp_all
  show ?thesis
    using a b c d e register_table_examples write_mapping_1 by simp
qed

subsection \<open>The reply to SR\<close>














end
